theory Spec2Isabelle
  imports Main
begin

section \<open>The DM relay cog (bot/cogs/dm\_relay.py)\<close>

text \<open>
  The cog \<^verbatim>\<open>DMRelay\<close> holds two mutable fields, \<^verbatim>\<open>webhook\<close> and
  \<^verbatim>\<open>last_dm_user\<close>, and has three coroutines: \<^verbatim>\<open>fetch_webhook\<close>,
  \<^verbatim>\<open>on_message\<close> and the command \<^verbatim>\<open>send_dm\<close>. Each coroutine is
  embedded as a function from the cog's fields before the call to an outcome: the fields
  after the call, the calls made to the chat platform and to the logger, in order, and the
  exception that leaves the coroutine, if any.
\<close>

subsection \<open>Data\<close>

text \<open>
  The exceptions the source names. \<^verbatim>\<open>Forbidden\<close> and \<^verbatim>\<open>NotFound\<close> are
  subclasses of \<^verbatim>\<open>discord.HTTPException\<close>; \<open>HTTPException\<close> stands for an
  instance that is neither of the two; \<open>Exception\<close> for one outside that hierarchy;
  \<open>CheckFailure\<close> is what the command framework raises when a check rejects an invocation.
\<close>

datatype exn = Exception | HTTPException | Forbidden | NotFound | CheckFailure

fun isinstance_HTTPException :: "exn \<Rightarrow> bool" where
  "isinstance_HTTPException HTTPException = True"
| "isinstance_HTTPException Forbidden = True"
| "isinstance_HTTPException NotFound = True"
| "isinstance_HTTPException Exception = False"
| "isinstance_HTTPException CheckFailure = False"

record user =
  user_id :: nat
  display_name :: string
  avatar_url :: string
  bot_flag :: bool

record message =
  message_id :: nat
  author :: user
  guild :: "nat option"
  clean_content :: string
  attachments :: "string list"

datatype webhook = Webhook nat

datatype color = Red | Color nat

record embed =
  description :: string
  color :: color

text \<open>The keyword arguments of one call of \<^verbatim>\<open>send_webhook\<close>.\<close>

record webhook_post =
  post_webhook :: webhook
  post_content :: "string option"
  post_embed :: "embed option"
  post_username :: string
  post_avatar_url :: string

text \<open>
  The invocation context of a command: the invoking message and the role ids the invoking
  operator holds (\<^verbatim>\<open>ctx.author.roles\<close>).
\<close>

record Context =
  ctx_message :: message
  ctx_roles :: "nat list"

text \<open>
  The two reaction emoji of the source, as the UTF-8 bytes of U+2705 (white heavy check
  mark) and U+274C (cross mark).
\<close>

definition check_mark :: string where
  "check_mark = [CHR 0xE2, CHR 0x9C, CHR 0x85]"

definition cross_mark :: string where
  "cross_mark = [CHR 0xE2, CHR 0x9D, CHR 0x8C]"

text \<open>The calls a coroutine makes to the outside, in the order it makes them.\<close>

datatype event =
    Wait_until_guild_available
  | Fetch_webhook nat
  | Send_webhook webhook_post
  | Send_attachments message webhook
  | Send user string
  | Add_reaction message string
  | Log_debug string
  | Log_exception string exn

text \<open>The fields of the cog; \<^verbatim>\<open>__init__\<close> sets both optional ones to \<^verbatim>\<open>None\<close>.\<close>

record relay_state =
  webhook_id :: nat
  webhook :: "webhook option"
  last_dm_user :: "user option"

text \<open>
  The constants of \<^verbatim>\<open>bot.constants\<close> the cog reads, taken as parameters:
  \<^verbatim>\<open>Webhooks.dm_log\<close> and \<^verbatim>\<open>MODERATION_ROLES\<close>.
\<close>

record constants =
  dm_log :: nat
  MODERATION_ROLES :: "nat list"

text \<open>
  What the collaborators answer. \<^verbatim>\<open>send_webhook\<close> (bot.utils.webhooks) and
  \<^verbatim>\<open>send_attachments\<close> (bot.utils.messages) are not among the sources, and
  \<^verbatim>\<open>bot.fetch_webhook\<close> and the direct message \<^verbatim>\<open>send\<close> belong to the
  client library; all four are network calls, which run to completion or raise. Each is
  taken as a parameter: the environment decides whether a call returns or raises.
\<close>

record collaborators =
  fetch_webhook_result :: "nat \<Rightarrow> exn + webhook"
  send_webhook_result :: "webhook_post \<Rightarrow> exn option"
  send_attachments_result :: "message \<Rightarrow> webhook \<Rightarrow> exn option"
  send_result :: "user \<Rightarrow> string \<Rightarrow> exn option"

record outcome =
  state_after :: relay_state
  effects :: "event list"
  raised :: "exn option"

definition returns :: "relay_state \<Rightarrow> event list \<Rightarrow> outcome" where
  "returns s es = \<lparr>state_after = s, effects = es, raised = None\<rparr>"

definition raises :: "relay_state \<Rightarrow> event list \<Rightarrow> exn \<Rightarrow> outcome" where
  "raises s es e = \<lparr>state_after = s, effects = es, raised = Some e\<rparr>"

text \<open>The webhook posts among the calls made.\<close>

fun webhook_posts :: "event list \<Rightarrow> webhook_post list" where
  "webhook_posts [] = []"
| "webhook_posts (Send_webhook p # es) = p # webhook_posts es"
| "webhook_posts (_ # es) = webhook_posts es"

text \<open>The direct messages and the reactions among the calls made.\<close>

fun direct_messages :: "event list \<Rightarrow> (user \<times> string) list" where
  "direct_messages [] = []"
| "direct_messages (Send u body # es) = (u, body) # direct_messages es"
| "direct_messages (_ # es) = direct_messages es"

fun reactions :: "event list \<Rightarrow> (message \<times> string) list" where
  "reactions [] = []"
| "reactions (Add_reaction m emoji # es) = (m, emoji) # reactions es"
| "reactions (_ # es) = reactions es"

fun forwards :: "event list \<Rightarrow> (message \<times> webhook) list" where
  "forwards [] = []"
| "forwards (Send_attachments m w # es) = (m, w) # forwards es"
| "forwards (_ # es) = forwards es"

fun fetches :: "event list \<Rightarrow> nat list" where
  "fetches [] = []"
| "fetches (Fetch_webhook i # es) = i # fetches es"
| "fetches (_ # es) = fetches es"

text \<open>Python's \<^verbatim>\<open>str\<close> of a non-negative integer, for the f-string of the log line.\<close>

fun str :: "nat \<Rightarrow> string" where
  "str n = (if n < 10 then [char_of (48 + n)] else str (n div 10) @ [char_of (48 + n mod 10)])"

subsection \<open>The constructor\<close>

definition init :: "constants \<Rightarrow> relay_state" where
  "init c = \<lparr>webhook_id = dm_log c, webhook = None, last_dm_user = None\<rparr>"

subsection \<open>fetch\_webhook\<close>

definition fetch_webhook :: "collaborators \<Rightarrow> relay_state \<Rightarrow> outcome" where
  "fetch_webhook env s =
     (let calls = [Wait_until_guild_available, Fetch_webhook (webhook_id s)] in
      case fetch_webhook_result env (webhook_id s) of
        Inr w \<Rightarrow> returns (s\<lparr>webhook := Some w\<rparr>) calls
      | Inl e \<Rightarrow>
          if isinstance_HTTPException e
          then returns s (calls @
                 [Log_exception (''Failed to fetch webhook with id `'' @ str (webhook_id s) @ ''`'') e])
          else raises s calls e)"

subsection \<open>on\_message\<close>

text \<open>
  The guard of \<^verbatim>\<open>on_message\<close> is a chain of Python's \<^verbatim>\<open>or\<close>: the operands
  are evaluated from left to right and evaluation stops at the first true one. \<open>py_or\<close>
  returns the operands that were evaluated together with the value of the chain.
\<close>

datatype check = Author_bot | Message_guild | Webhook_is_None

fun py_or :: "(check \<times> bool) list \<Rightarrow> check list \<times> bool" where
  "py_or [] = ([], False)"
| "py_or ((c, b) # rest) =
     (if b then ([c], True) else (c # fst (py_or rest), snd (py_or rest)))"

definition skip_test :: "relay_state \<Rightarrow> message \<Rightarrow> check list \<times> bool" where
  "skip_test s m =
     py_or [(Author_bot, bot_flag (author m)),
            (Message_guild, guild m \<noteq> None),
            (Webhook_is_None, webhook s = None)]"

text \<open>
  A call of \<^verbatim>\<open>send_webhook\<close> is recorded as one \<open>Send_webhook\<close> with its
  keyword arguments; whether it returns or raises is the environment's
  \<open>send_webhook_result\<close>. The two posts the handler makes:
\<close>

definition text_post :: "webhook \<Rightarrow> message \<Rightarrow> webhook_post" where
  "text_post w m =
     \<lparr>post_webhook = w, post_content = Some (clean_content m), post_embed = None,
      post_username = display_name (author m), post_avatar_url = avatar_url (author m)\<rparr>"

definition error_embed :: embed where
  "error_embed =
     \<lparr>description = '':x: **This message contained an attachment, but it could not be retrieved**'',
      color = Red\<rparr>"

definition error_post :: "webhook \<Rightarrow> message \<Rightarrow> webhook_post" where
  "error_post w m =
     \<lparr>post_webhook = w, post_content = None, post_embed = Some error_embed,
      post_username = display_name (author m), post_avatar_url = avatar_url (author m)\<rparr>"

text \<open>
  The second block of the handler: the attachments and the handlers around their
  forwarding. \<open>es\<close> are the calls made so far. The placeholder post stands inside the
  first handler with nothing around it, so an exception it raises leaves the coroutine.
\<close>

definition relay_attachments ::
  "collaborators \<Rightarrow> relay_state \<Rightarrow> event list \<Rightarrow> webhook \<Rightarrow> message \<Rightarrow> outcome" where
  "relay_attachments env s es w m =
     (if attachments m \<noteq> []
      then (case send_attachments_result env m w of
              None \<Rightarrow> returns s (es @ [Send_attachments m w])
            | Some e \<Rightarrow>
                if e = Forbidden \<or> e = NotFound
                then (case send_webhook_result env (error_post w m) of
                        None \<Rightarrow>
                          returns s (es @ [Send_attachments m w, Send_webhook (error_post w m)])
                      | Some e' \<Rightarrow>
                          raises s (es @ [Send_attachments m w, Send_webhook (error_post w m)]) e')
                else if isinstance_HTTPException e
                then returns s (es @ [Send_attachments m w,
                        Log_exception ''Failed to send an attachment to the webhook'' e])
                else raises s (es @ [Send_attachments m w]) e)
      else returns s es)"

text \<open>
  The handler. Past the guard the webhook is held, so the branch for \<open>None\<close> of the
  inner case is never taken. The text post is awaited with nothing around it and the
  assignment of \<^verbatim>\<open>last_dm_user\<close> follows it: when the post raises, the exception
  leaves the coroutine before the assignment and before the attachments.
\<close>

definition on_message :: "collaborators \<Rightarrow> relay_state \<Rightarrow> message \<Rightarrow> outcome" where
  "on_message env s m =
     (if snd (skip_test s m) then returns s []
      else case webhook s of
             None \<Rightarrow> returns s []
           | Some w \<Rightarrow>
               if clean_content m \<noteq> []
               then (case send_webhook_result env (text_post w m) of
                       Some e \<Rightarrow> raises s [Send_webhook (text_post w m)] e
                     | None \<Rightarrow>
                         relay_attachments env (s\<lparr>last_dm_user := Some (author m)\<rparr>)
                           [Send_webhook (text_post w m)] w m)
               else relay_attachments env s [] w m)"

subsection \<open>send\_dm and its check\<close>

definition send_to :: "collaborators \<Rightarrow> relay_state \<Rightarrow> Context \<Rightarrow> user \<Rightarrow> string \<Rightarrow> outcome" where
  "send_to env s ctx u body =
     (case send_result env u body of
        Some e \<Rightarrow> raises s [Send u body] e
      | None \<Rightarrow> returns s [Send u body, Add_reaction (ctx_message ctx) check_mark])"

definition send_dm ::
  "collaborators \<Rightarrow> relay_state \<Rightarrow> Context \<Rightarrow> user option \<Rightarrow> string \<Rightarrow> outcome" where
  "send_dm env s ctx member body =
     (case member of
        Some u \<Rightarrow> send_to env s ctx u body
      | None \<Rightarrow>
          (case last_dm_user s of
             Some u \<Rightarrow> send_to env s ctx u body
           | None \<Rightarrow>
               returns s [Log_debug ''Unable to send a DM to the user.'',
                          Add_reaction (ctx_message ctx) cross_mark]))"

text \<open>
  Modelled from the spec: \<^verbatim>\<open>with_role_check\<close> (bot.utils.checks) is not among the
  sources. The specification describes it as a role-based check that consumes the
  invocation context and a set of role identifiers and answers whether the invoking
  operator holds at least one of them.
\<close>

definition with_role_check :: "Context \<Rightarrow> nat list \<Rightarrow> bool" where
  "with_role_check ctx role_ids = (set (ctx_roles ctx) \<inter> set role_ids \<noteq> {})"

definition cog_check :: "constants \<Rightarrow> Context \<Rightarrow> bool" where
  "cog_check c ctx = with_role_check ctx (MODERATION_ROLES c)"

text \<open>
  Modelled from the spec: the command framework that runs \<^verbatim>\<open>cog_check\<close> before a
  command of the cog is not among the sources. The specification has every invocation pass
  the check first, and an invocation that fails it is rejected before the command body runs.
\<close>

definition invoke_send_dm ::
  "constants \<Rightarrow> collaborators \<Rightarrow> relay_state \<Rightarrow> Context \<Rightarrow> user option \<Rightarrow> string \<Rightarrow> outcome" where
  "invoke_send_dm c env s ctx member body =
     (if cog_check c ctx then send_dm env s ctx member body else raises s [] CheckFailure)"

subsection \<open>Sample inputs\<close>

definition ex_alice :: user where
  "ex_alice = \<lparr>user_id = 1, display_name = ''alice'',
     avatar_url = ''https://cdn.example/alice.png'', bot_flag = False\<rparr>"

definition ex_bob :: user where
  "ex_bob = \<lparr>user_id = 2, display_name = ''bob'',
     avatar_url = ''https://cdn.example/bob.png'', bot_flag = False\<rparr>"

definition ex_robot :: user where
  "ex_robot = \<lparr>user_id = 3, display_name = ''robot'',
     avatar_url = ''https://cdn.example/robot.png'', bot_flag = True\<rparr>"

definition ex_hook :: webhook where
  "ex_hook = Webhook 7"

definition ex_text :: message where
  "ex_text = \<lparr>message_id = 10, author = ex_alice, guild = None,
     clean_content = ''hello'', attachments = []\<rparr>"

definition ex_file :: message where
  "ex_file = \<lparr>message_id = 11, author = ex_alice, guild = None,
     clean_content = [], attachments = [''cat.png'']\<rparr>"

definition ex_both :: message where
  "ex_both = \<lparr>message_id = 12, author = ex_alice, guild = None,
     clean_content = ''look'', attachments = [''cat.png'']\<rparr>"

definition ex_from_robot :: message where
  "ex_from_robot = \<lparr>message_id = 13, author = ex_robot, guild = None,
     clean_content = ''beep'', attachments = []\<rparr>"

definition ex_command :: message where
  "ex_command = \<lparr>message_id = 14, author = ex_bob, guild = Some 100,
     clean_content = ''!reply hi'', attachments = []\<rparr>"

definition ex_constants :: constants where
  "ex_constants = \<lparr>dm_log = 7, MODERATION_ROLES = [5, 6]\<rparr>"

definition ex_moderator :: Context where
  "ex_moderator = \<lparr>ctx_message = ex_command, ctx_roles = [9, 5]\<rparr>"

definition ex_member :: Context where
  "ex_member = \<lparr>ctx_message = ex_command, ctx_roles = [9]\<rparr>"

definition ex_ready :: relay_state where
  "ex_ready = \<lparr>webhook_id = 7, webhook = Some ex_hook, last_dm_user = None\<rparr>"

definition ex_after_bob :: relay_state where
  "ex_after_bob = \<lparr>webhook_id = 7, webhook = Some ex_hook, last_dm_user = Some ex_bob\<rparr>"

text \<open>
  An environment whose attachment forwarding answers \<open>r\<close> and whose other calls
  succeed.
\<close>

definition ex_env :: "exn option \<Rightarrow> collaborators" where
  "ex_env r = \<lparr>fetch_webhook_result = (\<lambda>_. Inr ex_hook),
     send_webhook_result = (\<lambda>_. None),
     send_attachments_result = (\<lambda>_ _. r), send_result = (\<lambda>_ _. None)\<rparr>"

definition ex_env_no_webhook :: collaborators where
  "ex_env_no_webhook = \<lparr>fetch_webhook_result = (\<lambda>_. Inl NotFound),
     send_webhook_result = (\<lambda>_. None),
     send_attachments_result = (\<lambda>_ _. None), send_result = (\<lambda>_ _. None)\<rparr>"

section \<open>Properties\<close>

subsection \<open>Auxiliary facts\<close>

declare str.simps [simp del]

lemmas ex_defs =
  ex_alice_def ex_bob_def ex_robot_def ex_hook_def ex_text_def ex_file_def ex_both_def
  ex_from_robot_def ex_command_def ex_constants_def ex_moderator_def ex_member_def
  ex_ready_def ex_after_bob_def ex_env_def ex_env_no_webhook_def

lemma skip_test_fst:
  "fst (skip_test s m) =
     (if bot_flag (author m) then [Author_bot]
      else if guild m \<noteq> None then [Author_bot, Message_guild]
      else [Author_bot, Message_guild, Webhook_is_None])"
  by (simp add: skip_test_def)

lemma skip_test_snd:
  "snd (skip_test s m) = (bot_flag (author m) \<or> guild m \<noteq> None \<or> webhook s = None)"
  by (simp add: skip_test_def)

lemma on_message_skip:
  "bot_flag (author m) \<or> guild m \<noteq> None \<or> webhook s = None \<Longrightarrow>
   on_message env s m = returns s []"
  by (simp add: on_message_def skip_test_snd)

lemma on_message_qualifying:
  "\<not> bot_flag (author m) \<Longrightarrow> guild m = None \<Longrightarrow> webhook s = Some w \<Longrightarrow>
   on_message env s m =
     (if clean_content m \<noteq> []
      then (case send_webhook_result env (text_post w m) of
              Some e \<Rightarrow> raises s [Send_webhook (text_post w m)] e
            | None \<Rightarrow>
                relay_attachments env (s\<lparr>last_dm_user := Some (author m)\<rparr>)
                  [Send_webhook (text_post w m)] w m)
      else relay_attachments env s [] w m)"
  by (simp add: on_message_def skip_test_snd)

lemma on_message_text_returned:
  assumes "\<not> bot_flag (author m)" and "guild m = None" and "webhook s = Some w"
    and "clean_content m = [] \<or> send_webhook_result env (text_post w m) = None"
  shows "on_message env s m =
     relay_attachments env
       (if clean_content m \<noteq> [] then s\<lparr>last_dm_user := Some (author m)\<rparr> else s)
       (if clean_content m \<noteq> [] then [Send_webhook (text_post w m)] else []) w m"
  using assms(4) by (auto simp: on_message_qualifying [OF assms(1-3)])

lemma webhook_posts_append:
  "webhook_posts (xs @ ys) = webhook_posts xs @ webhook_posts ys"
  by (induction xs rule: webhook_posts.induct) simp_all

lemma forwards_append:
  "forwards (xs @ ys) = forwards xs @ forwards ys"
  by (induction xs rule: forwards.induct) simp_all

lemma state_after_relay_attachments:
  "state_after (relay_attachments env s es w m) = s"
  by (simp add: relay_attachments_def returns_def raises_def split: option.splits)

lemma relay_attachments_posts:
  "webhook_posts (effects (relay_attachments env s es w m)) =
     webhook_posts es @
     (if attachments m \<noteq> [] \<and> send_attachments_result env m w \<in> {Some Forbidden, Some NotFound}
      then [error_post w m] else [])"
  by (auto simp: relay_attachments_def returns_def raises_def webhook_posts_append
           split: option.splits)

lemma direct_messages_send_to:
  "direct_messages (effects (send_to env s ctx u body)) = [(u, body)]"
  by (simp add: send_to_def returns_def raises_def split: option.splits)

lemma state_after_send_to: "state_after (send_to env s ctx u body) = s"
  by (simp add: send_to_def returns_def raises_def split: option.splits)

lemma state_after_send_dm: "state_after (send_dm env s ctx member body) = s"
  by (simp add: send_dm_def state_after_send_to returns_def split: option.splits)

lemma send_to_success:
  "send_result env u body = None \<Longrightarrow>
   send_to env s ctx u body = returns s [Send u body, Add_reaction (ctx_message ctx) check_mark]"
  by (simp add: send_to_def)

lemma invoke_authorized:
  "cog_check c ctx \<Longrightarrow> invoke_send_dm c env s ctx member body = send_dm env s ctx member body"
  by (simp add: invoke_send_dm_def)

subsection \<open>The claims\<close>

text \<open>
  Claim C1. A message from a human author, sent outside any guild while a webhook is held,
  whose cleaned text is not empty: in every environment, among the webhook posts of the
  handler exactly one carries that text, and it goes to the held webhook under the author's
  display name and avatar. When that post returns, \<^verbatim>\<open>last_dm_user\<close> is the author
  of the message afterwards, whatever the handling of the attachments does.
\<close>

theorem on_message_text:
  assumes "\<not> bot_flag (author m)" and "guild m = None" and "webhook s = Some w"
    and "clean_content m \<noteq> []"
  shows "filter (\<lambda>p. post_content p = Some (clean_content m))
           (webhook_posts (effects (on_message env s m))) =
         [\<lparr>post_webhook = w, post_content = Some (clean_content m), post_embed = None,
           post_username = display_name (author m),
           post_avatar_url = avatar_url (author m)\<rparr>] \<and>
         (send_webhook_result env (text_post w m) = None \<longrightarrow>
            last_dm_user (state_after (on_message env s m)) = Some (author m))"
proof (cases "send_webhook_result env (text_post w m)")
  case None
  then have run: "on_message env s m =
      relay_attachments env (s\<lparr>last_dm_user := Some (author m)\<rparr>)
        [Send_webhook (text_post w m)] w m"
    using assms(4) by (simp add: on_message_qualifying [OF assms(1-3)])
  have last: "last_dm_user (state_after (on_message env s m)) = Some (author m)"
    by (simp add: run state_after_relay_attachments)
  have "webhook_posts (effects (on_message env s m)) =
      text_post w m #
      (if attachments m \<noteq> [] \<and> send_attachments_result env m w \<in> {Some Forbidden, Some NotFound}
       then [error_post w m] else [])"
    by (simp add: run relay_attachments_posts)
  then have "filter (\<lambda>p. post_content p = Some (clean_content m))
      (webhook_posts (effects (on_message env s m))) = [text_post w m]"
    by (simp add: text_post_def error_post_def)
  with last show ?thesis by (simp add: text_post_def)
next
  case (Some e)
  then have "on_message env s m = raises s [Send_webhook (text_post w m)] e"
    using assms(4) by (simp add: on_message_qualifying [OF assms(1-3)])
  then show ?thesis using Some by (simp add: raises_def text_post_def)
qed

theorem on_message_text_witness:
  "\<not> bot_flag (author ex_text) \<and> guild ex_text = None \<and> webhook ex_ready = Some ex_hook \<and>
   clean_content ex_text \<noteq> [] \<and>
   send_webhook_result (ex_env None) (text_post ex_hook ex_text) = None \<and>
   filter (\<lambda>p. post_content p = Some ''hello'')
     (webhook_posts (effects (on_message (ex_env None) ex_ready ex_text))) =
     [\<lparr>post_webhook = ex_hook, post_content = Some ''hello'', post_embed = None,
       post_username = ''alice'', post_avatar_url = ''https://cdn.example/alice.png''\<rparr>] \<and>
   last_dm_user (state_after (on_message (ex_env None) ex_ready ex_text)) = Some ex_alice"
proof -
  have h: "\<not> bot_flag (author ex_text)" "guild ex_text = None"
    "webhook ex_ready = Some ex_hook" "clean_content ex_text \<noteq> []"
    by (simp_all add: ex_text_def ex_alice_def ex_ready_def)
  have r: "send_webhook_result (ex_env None) (text_post ex_hook ex_text) = None"
    by (simp add: ex_env_def)
  show ?thesis
    using h r on_message_text [OF h, where env = "ex_env None"]
    by (simp add: ex_text_def ex_alice_def)
qed

text \<open>
  Claim C2. A message whose author is a bot, or that comes from a guild, or that arrives
  while no webhook is held: the handler returns at once, with no call made (so no webhook
  post), no exception and the fields of the cog as they were. The three tests are
  evaluated in the order author, guild, webhook, and evaluation stops at the first that
  holds.
\<close>

theorem on_message_skips:
  assumes "bot_flag (author m) \<or> guild m \<noteq> None \<or> webhook s = None"
  shows "on_message env s m = returns s [] \<and>
         webhook_posts (effects (on_message env s m)) = [] \<and>
         last_dm_user (state_after (on_message env s m)) = last_dm_user s \<and>
         fst (skip_test s m) =
           (if bot_flag (author m) then [Author_bot]
            else if guild m \<noteq> None then [Author_bot, Message_guild]
            else [Author_bot, Message_guild, Webhook_is_None])"
proof -
  from assms have "on_message env s m = returns s []" by (rule on_message_skip)
  then show ?thesis by (simp add: returns_def skip_test_fst)
qed

theorem on_message_skips_witness:
  "bot_flag (author ex_from_robot) \<and>
   on_message (ex_env None) ex_ready ex_from_robot = returns ex_ready [] \<and>
   fst (skip_test ex_ready ex_from_robot) = [Author_bot] \<and>
   guild ex_command \<noteq> None \<and>
   on_message (ex_env None) ex_ready ex_command = returns ex_ready [] \<and>
   fst (skip_test ex_ready ex_command) = [Author_bot, Message_guild] \<and>
   webhook (init ex_constants) = None \<and>
   on_message (ex_env None) (init ex_constants) ex_text = returns (init ex_constants) [] \<and>
   fst (skip_test (init ex_constants) ex_text) = [Author_bot, Message_guild, Webhook_is_None]"
proof -
  have a: "bot_flag (author ex_from_robot)"
    by (simp add: ex_from_robot_def ex_robot_def)
  have b: "guild ex_command \<noteq> None" and b': "\<not> bot_flag (author ex_command)"
    by (simp_all add: ex_command_def ex_bob_def)
  have c: "webhook (init ex_constants) = None"
    and c': "\<not> bot_flag (author ex_text)" "guild ex_text = None"
    by (simp_all add: init_def ex_text_def ex_alice_def)
  from a have ha: "bot_flag (author ex_from_robot) \<or> guild ex_from_robot \<noteq> None \<or>
      webhook ex_ready = None" by simp
  from b have hb: "bot_flag (author ex_command) \<or> guild ex_command \<noteq> None \<or>
      webhook ex_ready = None" by simp
  from c have hc: "bot_flag (author ex_text) \<or> guild ex_text \<noteq> None \<or>
      webhook (init ex_constants) = None" by simp
  show ?thesis
    using on_message_skips [OF ha, where env = "ex_env None"]
      on_message_skips [OF hb, where env = "ex_env None"]
      on_message_skips [OF hc, where env = "ex_env None"]
      a b b' c c'
    by simp
qed

text \<open>
  Claim C3. A qualifying message with at least one attachment whose forwarding raises
  \<^verbatim>\<open>Forbidden\<close> or \<^verbatim>\<open>NotFound\<close>, the forwarding being reached: the message
  has no text, or the post of its text returned. After the failed forwarding call the
  handler makes one webhook post with an embed, the red notice that the attachment could
  not be retrieved, under the author's display name and avatar; it is the only post with an
  embed and it is the last call. The handler raises exactly what that post raises, so it
  returns normally when the post returns.
\<close>

theorem on_message_attachment_denied:
  assumes "\<not> bot_flag (author m)" and "guild m = None" and "webhook s = Some w"
    and "attachments m \<noteq> []"
    and "send_attachments_result env m w = Some e"
    and "e = Forbidden \<or> e = NotFound"
    and "clean_content m = [] \<or> send_webhook_result env (text_post w m) = None"
  shows "filter (\<lambda>p. post_embed p \<noteq> None) (webhook_posts (effects (on_message env s m))) =
         [\<lparr>post_webhook = w, post_content = None,
           post_embed = Some \<lparr>description =
             '':x: **This message contained an attachment, but it could not be retrieved**'',
             color = Red\<rparr>,
           post_username = display_name (author m),
           post_avatar_url = avatar_url (author m)\<rparr>] \<and>
         effects (on_message env s m) =
           (if clean_content m \<noteq> [] then [Send_webhook (text_post w m)] else []) @
           [Send_attachments m w, Send_webhook (error_post w m)] \<and>
         raised (on_message env s m) = send_webhook_result env (error_post w m)"
proof -
  note run = on_message_text_returned [OF assms(1-3) assms(7)]
  have eff: "effects (on_message env s m) =
      (if clean_content m \<noteq> [] then [Send_webhook (text_post w m)] else []) @
      [Send_attachments m w, Send_webhook (error_post w m)]"
    and ret: "raised (on_message env s m) = send_webhook_result env (error_post w m)"
    using assms(4-6)
    by (auto simp: run relay_attachments_def returns_def raises_def split: option.splits)
  have "webhook_posts (effects (on_message env s m)) =
      (if clean_content m \<noteq> [] then [text_post w m] else []) @ [error_post w m]"
    by (simp add: eff)
  then have "filter (\<lambda>p. post_embed p \<noteq> None) (webhook_posts (effects (on_message env s m))) =
      [error_post w m]"
    by (simp add: text_post_def error_post_def)
  with eff ret show ?thesis by (simp add: error_post_def error_embed_def)
qed

theorem on_message_attachment_denied_witness:
  "\<not> bot_flag (author ex_both) \<and> guild ex_both = None \<and> webhook ex_ready = Some ex_hook \<and>
   attachments ex_both \<noteq> [] \<and>
   send_attachments_result (ex_env (Some Forbidden)) ex_both ex_hook = Some Forbidden \<and>
   send_webhook_result (ex_env (Some Forbidden)) (text_post ex_hook ex_both) = None \<and>
   effects (on_message (ex_env (Some Forbidden)) ex_ready ex_both) =
     [Send_webhook (text_post ex_hook ex_both), Send_attachments ex_both ex_hook,
      Send_webhook (error_post ex_hook ex_both)] \<and>
   raised (on_message (ex_env (Some Forbidden)) ex_ready ex_both) = None \<and>
   filter (\<lambda>p. post_embed p \<noteq> None)
     (webhook_posts (effects (on_message (ex_env (Some Forbidden)) ex_ready ex_both))) =
     [\<lparr>post_webhook = ex_hook, post_content = None,
       post_embed = Some \<lparr>description =
         '':x: **This message contained an attachment, but it could not be retrieved**'',
         color = Red\<rparr>,
       post_username = ''alice'', post_avatar_url = ''https://cdn.example/alice.png''\<rparr>]"
proof -
  have h: "\<not> bot_flag (author ex_both)" "guild ex_both = None"
    "webhook ex_ready = Some ex_hook" "attachments ex_both \<noteq> []"
    "send_attachments_result (ex_env (Some Forbidden)) ex_both ex_hook = Some Forbidden"
    "Forbidden = Forbidden \<or> Forbidden = NotFound"
    "clean_content ex_both = [] \<or>
     send_webhook_result (ex_env (Some Forbidden)) (text_post ex_hook ex_both) = None"
    by (simp_all add: ex_both_def ex_alice_def ex_ready_def ex_env_def)
  have r: "send_webhook_result (ex_env (Some Forbidden)) p = None" for p
    by (simp add: ex_env_def)
  show ?thesis
    using h(1-5) on_message_attachment_denied [OF h]
    by (simp add: r text_post_def error_post_def error_embed_def ex_both_def ex_alice_def)
qed

text \<open>
  Claim C4. The claim has \<^verbatim>\<open>last_dm_user\<close> equal to the author after every
  qualifying message that led to a call on the webhook. The assignment stands inside the
  branch for non-empty text. Here bob was the last to write; alice then sends a message
  that has an attachment and no text. The attachment is forwarded,
  \<^verbatim>\<open>last_dm_user\<close> is still bob, and a reply without a target goes to bob, although
  the docstring of \<^verbatim>\<open>send_dm\<close> promises the last user who DM'd the bot.
\<close>

theorem attachment_only_message_keeps_last_dm_user:
  "effects (on_message (ex_env None) ex_after_bob ex_file) = [Send_attachments ex_file ex_hook] \<and>
   raised (on_message (ex_env None) ex_after_bob ex_file) = None \<and>
   last_dm_user (state_after (on_message (ex_env None) ex_after_bob ex_file)) = Some ex_bob \<and>
   Some ex_bob \<noteq> Some (author ex_file) \<and>
   direct_messages (effects (send_dm (ex_env None)
       (state_after (on_message (ex_env None) ex_after_bob ex_file)) ex_moderator None ''hi'')) =
     [(ex_bob, ''hi'')]"
  by (simp add: on_message_def skip_test_def relay_attachments_def
        send_dm_def send_to_def returns_def ex_defs)

text \<open>
  Claim C5. An invocation of the reply command that passes the check and gives no target.
  When \<^verbatim>\<open>last_dm_user\<close> is a user u, the one direct message sent goes to u with
  the given body, and when that send returns, the check mark is added to the invoking
  message as the only other call. When \<^verbatim>\<open>last_dm_user\<close> is unset, no direct
  message is sent: the calls are the debug log line and the cross mark on the invoking
  message.
\<close>

theorem reply_without_target:
  assumes "cog_check c ctx"
  shows "(\<forall>u. last_dm_user s = Some u \<longrightarrow>
            direct_messages (effects (invoke_send_dm c env s ctx None body)) = [(u, body)] \<and>
            (send_result env u body = None \<longrightarrow>
               effects (invoke_send_dm c env s ctx None body) =
                 [Send u body, Add_reaction (ctx_message ctx) check_mark] \<and>
               raised (invoke_send_dm c env s ctx None body) = None)) \<and>
         (last_dm_user s = None \<longrightarrow>
            direct_messages (effects (invoke_send_dm c env s ctx None body)) = [] \<and>
            effects (invoke_send_dm c env s ctx None body) =
              [Log_debug ''Unable to send a DM to the user.'',
               Add_reaction (ctx_message ctx) cross_mark] \<and>
            raised (invoke_send_dm c env s ctx None body) = None)"
proof -
  have run: "invoke_send_dm c env s ctx None body = send_dm env s ctx None body"
    using assms by (rule invoke_authorized)
  show ?thesis
    by (simp add: run send_dm_def direct_messages_send_to send_to_success returns_def)
qed

theorem reply_without_target_witness:
  "cog_check ex_constants ex_moderator \<and>
   last_dm_user ex_after_bob = Some ex_bob \<and>
   effects (invoke_send_dm ex_constants (ex_env None) ex_after_bob ex_moderator None ''hi'') =
     [Send ex_bob ''hi'', Add_reaction ex_command check_mark] \<and>
   last_dm_user ex_ready = None \<and>
   effects (invoke_send_dm ex_constants (ex_env None) ex_ready ex_moderator None ''hi'') =
     [Log_debug ''Unable to send a DM to the user.'', Add_reaction ex_command cross_mark]"
proof -
  have h: "cog_check ex_constants ex_moderator"
    by (simp add: cog_check_def with_role_check_def ex_constants_def ex_moderator_def)
  have l: "last_dm_user ex_after_bob = Some ex_bob" "last_dm_user ex_ready = None"
    "send_result (ex_env None) ex_bob ''hi'' = None"
    "ctx_message ex_moderator = ex_command"
    by (simp_all add: ex_after_bob_def ex_ready_def ex_env_def ex_moderator_def)
  show ?thesis
    using h l
      reply_without_target [OF h, where s = ex_after_bob and env = "ex_env None" and body = "''hi''"]
      reply_without_target [OF h, where s = ex_ready and env = "ex_env None" and body = "''hi''"]
    by simp
qed

text \<open>
  Claim C6. An invocation of the reply command that passes the check and names a target:
  the one direct message sent goes to that target with the given body, the calls made do
  not depend on the fields of the cog (so not on \<^verbatim>\<open>last_dm_user\<close>), and when
  the send returns, the check mark is added to the invoking message.
\<close>

theorem reply_with_target:
  assumes "cog_check c ctx"
  shows "direct_messages (effects (invoke_send_dm c env s ctx (Some t) body)) = [(t, body)] \<and>
         effects (invoke_send_dm c env s ctx (Some t) body) =
           effects (invoke_send_dm c env s' ctx (Some t) body) \<and>
         (send_result env t body = None \<longrightarrow>
            effects (invoke_send_dm c env s ctx (Some t) body) =
              [Send t body, Add_reaction (ctx_message ctx) check_mark] \<and>
            raised (invoke_send_dm c env s ctx (Some t) body) = None)"
proof -
  have run: "invoke_send_dm c env z ctx (Some t) body = send_to env z ctx t body" for z
    using assms by (simp add: invoke_authorized send_dm_def)
  have same: "effects (send_to env s ctx t body) = effects (send_to env s' ctx t body)"
    by (simp add: send_to_def returns_def raises_def split: option.splits)
  show ?thesis
    by (simp add: run direct_messages_send_to send_to_success returns_def same)
qed

theorem reply_with_target_witness:
  "cog_check ex_constants ex_moderator \<and>
   last_dm_user ex_after_bob = Some ex_bob \<and>
   effects (invoke_send_dm ex_constants (ex_env None) ex_after_bob ex_moderator
     (Some ex_alice) ''hi'') =
     [Send ex_alice ''hi'', Add_reaction ex_command check_mark]"
proof -
  have h: "cog_check ex_constants ex_moderator"
    by (simp add: cog_check_def with_role_check_def ex_constants_def ex_moderator_def)
  have l: "last_dm_user ex_after_bob = Some ex_bob"
    "send_result (ex_env None) ex_alice ''hi'' = None"
    "ctx_message ex_moderator = ex_command"
    by (simp_all add: ex_after_bob_def ex_env_def ex_moderator_def)
  note r = reply_with_target [OF h, where s = ex_after_bob and s' = ex_ready
    and env = "ex_env None" and t = ex_alice and body = "''hi''"]
  show ?thesis
    using h l r [THEN conjunct2, THEN conjunct2]
    by simp
qed

text \<open>
  Claim C7. An invocation of the reply command by an operator who holds none of the
  moderation roles fails the check and is rejected before the body of the command runs:
  no call is made at all, so no direct message, no reaction and no webhook post.
\<close>

theorem reply_unauthorized:
  assumes "set (ctx_roles ctx) \<inter> set (MODERATION_ROLES c) = {}"
  shows "\<not> cog_check c ctx \<and>
         invoke_send_dm c env s ctx member body = raises s [] CheckFailure \<and>
         direct_messages (effects (invoke_send_dm c env s ctx member body)) = [] \<and>
         reactions (effects (invoke_send_dm c env s ctx member body)) = [] \<and>
         webhook_posts (effects (invoke_send_dm c env s ctx member body)) = []"
proof -
  from assms have "\<not> cog_check c ctx" by (simp add: cog_check_def with_role_check_def)
  then show ?thesis by (simp add: invoke_send_dm_def raises_def)
qed

theorem reply_unauthorized_witness:
  "set (ctx_roles ex_member) \<inter> set (MODERATION_ROLES ex_constants) = {} \<and>
   invoke_send_dm ex_constants (ex_env None) ex_after_bob ex_member (Some ex_alice) ''hi'' =
     raises ex_after_bob [] CheckFailure"
proof -
  have h: "set (ctx_roles ex_member) \<inter> set (MODERATION_ROLES ex_constants) = {}"
    by (simp add: ex_member_def ex_constants_def)
  show ?thesis
    using h reply_unauthorized [OF h, where env = "ex_env None" and s = ex_after_bob
      and member = "Some ex_alice" and body = "''hi''"]
    by simp
qed

text \<open>
  Claim C8. When the fetch of the webhook raises an \<^verbatim>\<open>HTTPException\<close> (or one of
  its subclasses) while no webhook is held, as is the case after the constructor:
  \<^verbatim>\<open>fetch_webhook\<close> returns without raising, its only calls are the wait, one
  fetch and the log line that carries the webhook id, the webhook is still absent, and
  from the state it leaves every message is handled as a no-op that returns normally.
\<close>

theorem fetch_webhook_failure:
  assumes "fetch_webhook_result env (webhook_id s) = Inl e"
    and "isinstance_HTTPException e"
    and "webhook s = None"
  shows "raised (fetch_webhook env s) = None \<and>
         effects (fetch_webhook env s) =
           [Wait_until_guild_available, Fetch_webhook (webhook_id s),
            Log_exception (''Failed to fetch webhook with id `'' @ str (webhook_id s) @ ''`'') e] \<and>
         fetches (effects (fetch_webhook env s)) = [webhook_id s] \<and>
         webhook (state_after (fetch_webhook env s)) = None \<and>
         (\<forall>env' m. on_message env' (state_after (fetch_webhook env s)) m =
                     returns (state_after (fetch_webhook env s)) [])"
proof -
  have run: "fetch_webhook env s =
      returns s [Wait_until_guild_available, Fetch_webhook (webhook_id s),
        Log_exception (''Failed to fetch webhook with id `'' @ str (webhook_id s) @ ''`'') e]"
    using assms(1,2) by (simp add: fetch_webhook_def)
  have "on_message env' s m = returns s []" for env' m
    using assms(3) by (simp add: on_message_skip)
  then show ?thesis using assms(3) by (simp add: run returns_def)
qed

theorem fetch_webhook_failure_witness:
  "fetch_webhook_result ex_env_no_webhook (webhook_id (init ex_constants)) = Inl NotFound \<and>
   isinstance_HTTPException NotFound \<and>
   webhook (init ex_constants) = None \<and>
   effects (fetch_webhook ex_env_no_webhook (init ex_constants)) =
     [Wait_until_guild_available, Fetch_webhook 7,
      Log_exception ''Failed to fetch webhook with id `7`'' NotFound] \<and>
   raised (fetch_webhook ex_env_no_webhook (init ex_constants)) = None \<and>
   on_message (ex_env None) (state_after (fetch_webhook ex_env_no_webhook (init ex_constants)))
     ex_both =
     returns (state_after (fetch_webhook ex_env_no_webhook (init ex_constants))) []"
proof -
  have h: "fetch_webhook_result ex_env_no_webhook (webhook_id (init ex_constants)) = Inl NotFound"
    "isinstance_HTTPException NotFound" "webhook (init ex_constants) = None"
    by (simp_all add: ex_env_no_webhook_def init_def)
  have i: "webhook_id (init ex_constants) = 7"
    by (simp add: init_def ex_constants_def)
  have d: "str 7 = ''7''"
    by code_simp
  show ?thesis
    using h fetch_webhook_failure [OF h]
    by (simp add: i d)
qed

text \<open>
  Claim C9. A qualifying message with at least one attachment whose forwarding raises an
  \<^verbatim>\<open>HTTPException\<close> that is neither \<^verbatim>\<open>Forbidden\<close> nor
  \<^verbatim>\<open>NotFound\<close>, the forwarding being reached: the message has no text, or the
  post of its text returned. The handler logs the failure as its last call and returns
  normally; the forwarding was called once, and the only webhook post is that of the text,
  if the message had any.
\<close>

theorem on_message_attachment_http_error:
  assumes "\<not> bot_flag (author m)" and "guild m = None" and "webhook s = Some w"
    and "attachments m \<noteq> []"
    and "send_attachments_result env m w = Some e"
    and "isinstance_HTTPException e" and "e \<noteq> Forbidden" and "e \<noteq> NotFound"
    and "clean_content m = [] \<or> send_webhook_result env (text_post w m) = None"
  shows "effects (on_message env s m) =
           (if clean_content m \<noteq> [] then [Send_webhook (text_post w m)] else []) @
           [Send_attachments m w,
            Log_exception ''Failed to send an attachment to the webhook'' e] \<and>
         webhook_posts (effects (on_message env s m)) =
           (if clean_content m \<noteq> [] then [text_post w m] else []) \<and>
         forwards (effects (on_message env s m)) = [(m, w)] \<and>
         raised (on_message env s m) = None"
proof -
  note run = on_message_text_returned [OF assms(1-3) assms(9)]
  have eff: "effects (on_message env s m) =
      (if clean_content m \<noteq> [] then [Send_webhook (text_post w m)] else []) @
      [Send_attachments m w, Log_exception ''Failed to send an attachment to the webhook'' e]"
    and ret: "raised (on_message env s m) = None"
    using assms(4-8) by (simp_all add: run relay_attachments_def returns_def)
  show ?thesis
    by (simp add: eff ret)
qed

theorem on_message_attachment_http_error_witness:
  "\<not> bot_flag (author ex_both) \<and> guild ex_both = None \<and> webhook ex_ready = Some ex_hook \<and>
   attachments ex_both \<noteq> [] \<and>
   send_attachments_result (ex_env (Some HTTPException)) ex_both ex_hook = Some HTTPException \<and>
   isinstance_HTTPException HTTPException \<and> HTTPException \<noteq> Forbidden \<and>
   HTTPException \<noteq> NotFound \<and>
   send_webhook_result (ex_env (Some HTTPException)) (text_post ex_hook ex_both) = None \<and>
   effects (on_message (ex_env (Some HTTPException)) ex_ready ex_both) =
     [Send_webhook (text_post ex_hook ex_both), Send_attachments ex_both ex_hook,
      Log_exception ''Failed to send an attachment to the webhook'' HTTPException] \<and>
   webhook_posts (effects (on_message (ex_env (Some HTTPException)) ex_ready ex_both)) =
     [text_post ex_hook ex_both] \<and>
   raised (on_message (ex_env (Some HTTPException)) ex_ready ex_both) = None"
proof -
  have h: "\<not> bot_flag (author ex_both)" "guild ex_both = None"
    "webhook ex_ready = Some ex_hook" "attachments ex_both \<noteq> []"
    "send_attachments_result (ex_env (Some HTTPException)) ex_both ex_hook = Some HTTPException"
    "isinstance_HTTPException HTTPException" "HTTPException \<noteq> Forbidden"
    "HTTPException \<noteq> NotFound"
    "clean_content ex_both = [] \<or>
     send_webhook_result (ex_env (Some HTTPException)) (text_post ex_hook ex_both) = None"
    by (simp_all add: ex_both_def ex_alice_def ex_ready_def ex_env_def)
  have r: "send_webhook_result (ex_env (Some HTTPException)) p = None" for p
    by (simp add: ex_env_def)
  show ?thesis
    using h(1-5) on_message_attachment_http_error [OF h]
    by (simp add: r ex_both_def)
qed

text \<open>
  Claim C10. The reply command leaves the fields of the cog as they were, whatever its
  target and outcome, also when it is rejected by the check. The message handler never
  writes the webhook, and \<^verbatim>\<open>fetch_webhook\<close> never writes
  \<^verbatim>\<open>last_dm_user\<close>.
\<close>

theorem relay_state_writers:
  "state_after (send_dm env s ctx member body) = s \<and>
   last_dm_user (state_after (invoke_send_dm c env s ctx member body)) = last_dm_user s \<and>
   webhook (state_after (invoke_send_dm c env s ctx member body)) = webhook s \<and>
   webhook (state_after (on_message env s m)) = webhook s \<and>
   last_dm_user (state_after (fetch_webhook env s)) = last_dm_user s"
proof -
  have a: "state_after (send_dm env s ctx member body) = s"
    by (rule state_after_send_dm)
  have b: "state_after (invoke_send_dm c env s ctx member body) = s"
    by (simp add: invoke_send_dm_def state_after_send_dm raises_def)
  have c: "webhook (state_after (on_message env s m)) = webhook s"
    by (simp add: on_message_def state_after_relay_attachments returns_def raises_def
          split: option.splits)
  have d: "last_dm_user (state_after (fetch_webhook env s)) = last_dm_user s"
    by (simp add: fetch_webhook_def Let_def returns_def raises_def split: sum.splits)
  from a b c d show ?thesis by simp
qed

end
